theory Spec2Isabelle
  imports Complex_Main "HOL-Library.Multiset"
begin

section \<open>Data model\<close>

text \<open>
  A request carries a list of row records, each an ordered mapping from field name to a raw
  JSON scalar. Numbers are modelled as reals: IEEE rounding is abstracted away, so the
  statements below are about the arithmetic the code writes down, not about its rounding.
\<close>

datatype raw = Null | RBool bool | RNum real | RStr string

type_synonym row = "(string \<times> raw) list"

datatype error = KeyError | IndexError | ValueError | TypeError | RuntimeError | DataError

text \<open>
  A pandas column after construction: float64/int64 (None is NaN), bool, datetime64[ns]
  (nanoseconds since the epoch, None is NaT) or object (the raw values as received).
\<close>

datatype column =
    Float "real option list"
  | Boolean "bool list"
  | Datetime "int option list"
  | Object "raw list"

record DataFrame =
  index :: "nat list"
  columns :: "(string \<times> column) list"

text \<open>
  The libraries the module imports, as parameters. The string parsers behind
  \<^verbatim>\<open>pd.to_numeric\<close> and \<^verbatim>\<open>pd.to_datetime\<close> (None: the value is refused and the call
  raises), the two optional dependencies (None: the import failed and the module-level name
  is None), and the frequency machinery of pandas.
\<close>

record lib =
  str_to_numeric :: "string \<Rightarrow> real option option"
  val_to_datetime :: "raw \<Rightarrow> int option"
  sm :: "(real option list \<Rightarrow> error + real option list) option"
  IsolationForest :: "(real list list \<Rightarrow> error + int list) option"
  lib_infer_freq :: "int list \<Rightarrow> string option"
  lib_asfreq :: "string option \<Rightarrow> int list \<Rightarrow> column \<Rightarrow> error + column"
  lib_object_axis :: "raw list \<Rightarrow> column \<Rightarrow> error + column"

section \<open>Generic column operations\<close>

fun col_len :: "column \<Rightarrow> nat" where
  "col_len (Float xs) = length xs"
| "col_len (Boolean bs) = length bs"
| "col_len (Datetime ts) = length ts"
| "col_len (Object vs) = length vs"

fun isna :: "column \<Rightarrow> bool list" where
  "isna (Float xs) = map (\<lambda>v. v = None) xs"
| "isna (Boolean bs) = map (\<lambda>_. False) bs"
| "isna (Datetime ts) = map (\<lambda>v. v = None) ts"
| "isna (Object vs) = map (\<lambda>v. v = Null) vs"

text \<open>Boolean-mask selection \<^verbatim>\<open>xs[mask]\<close>.\<close>

fun select :: "bool list \<Rightarrow> 'a list \<Rightarrow> 'a list" where
  "select (m # ms) (x # xs) = (if m then x # select ms xs else select ms xs)"
| "select _ _ = []"

fun select_col :: "bool list \<Rightarrow> column \<Rightarrow> column" where
  "select_col m (Float xs) = Float (select m xs)"
| "select_col m (Boolean bs) = Boolean (select m bs)"
| "select_col m (Datetime ts) = Datetime (select m ts)"
| "select_col m (Object vs) = Object (select m vs)"

definition empty :: "DataFrame \<Rightarrow> bool" where
  "empty df \<longleftrightarrow> index df = [] \<or> columns df = []"

definition column_names :: "DataFrame \<Rightarrow> string list" where
  "column_names df = map fst (columns df)"

text \<open>\<^verbatim>\<open>df[[c1, ..., cn]]\<close>: a KeyError when a name is no column of the frame.\<close>

fun getitem_cols :: "(string \<times> column) list \<Rightarrow> string list \<Rightarrow> error + (string \<times> column) list" where
  "getitem_cols cs [] = Inr []"
| "getitem_cols cs (n # ns) =
     (case map_of cs n of
        None \<Rightarrow> Inl KeyError
      | Some c \<Rightarrow> (case getitem_cols cs ns of Inl e \<Rightarrow> Inl e | Inr r \<Rightarrow> Inr ((n, c) # r)))"

definition getitem :: "DataFrame \<Rightarrow> string list \<Rightarrow> error + DataFrame" where
  "getitem df ns =
     (case getitem_cols (columns df) ns of
        Inl e \<Rightarrow> Inl e
      | Inr cs \<Rightarrow> Inr \<lparr>index = index df, columns = cs\<rparr>)"

text \<open>\<^verbatim>\<open>dropna()\<close>: keep the rows that have a value in every column; the index labels stay.\<close>

fun keep_mask :: "nat \<Rightarrow> column list \<Rightarrow> bool list" where
  "keep_mask n [] = replicate n True"
| "keep_mask n (c # cs) = map (\<lambda>(a, b). \<not> a \<and> b) (zip (isna c) (keep_mask n cs))"

definition dropna :: "DataFrame \<Rightarrow> DataFrame" where
  "dropna df =
     (let m = keep_mask (length (index df)) (map snd (columns df))
      in \<lparr>index = select m (index df),
          columns = map (\<lambda>(n, c). (n, select_col m c)) (columns df)\<rparr>)"

section \<open>Schema inference\<close>

text \<open>\<^verbatim>\<open>pd.DataFrame(data)\<close> on a list of dicts: columns in first-seen order, an absent key
  is a missing value, the index is the input position.\<close>

definition first_seen :: "row list \<Rightarrow> string list" where
  "first_seen data = rev (remdups (rev (concat (map (map fst) data))))"

definition get_raw :: "row \<Rightarrow> string \<Rightarrow> raw" where
  "get_raw r k = (case map_of r k of None \<Rightarrow> Null | Some v \<Rightarrow> v)"

fun is_num :: "raw \<Rightarrow> bool" where
  "is_num (RNum _) = True"
| "is_num _ = False"

fun is_bool :: "raw \<Rightarrow> bool" where
  "is_bool (RBool _) = True"
| "is_bool _ = False"

fun num_of :: "raw \<Rightarrow> real option" where
  "num_of (RNum x) = Some x"
| "num_of _ = None"

fun bool_of :: "raw \<Rightarrow> bool" where
  "bool_of (RBool b) = b"
| "bool_of _ = False"

text \<open>The dtype pandas gives a freshly built column: numbers with or without gaps are
  float64/int64, booleans without a gap are bool, everything else (strings, mixtures,
  booleans with a gap, nothing but gaps) is object.\<close>

definition infer_column :: "raw list \<Rightarrow> column" where
  "infer_column vs =
     (if list_all (\<lambda>v. is_num v \<or> v = Null) vs \<and> list_ex is_num vs then Float (map num_of vs)
      else if vs \<noteq> [] \<and> list_all is_bool vs then Boolean (map bool_of vs)
      else Object vs)"

definition DataFrame_of :: "row list \<Rightarrow> DataFrame" where
  "DataFrame_of data =
     \<lparr>index = [0..<length data],
      columns = map (\<lambda>k. (k, infer_column (map (\<lambda>r. get_raw r k) data))) (first_seen data)\<rparr>"

text \<open>Collecting results until the first exception.\<close>

fun collect :: "('a \<Rightarrow> error + 'b) \<Rightarrow> 'a list \<Rightarrow> error + 'b list" where
  "collect f [] = Inr []"
| "collect f (x # xs) =
     (case f x of
        Inl e \<Rightarrow> Inl e
      | Inr y \<Rightarrow> (case collect f xs of Inl e \<Rightarrow> Inl e | Inr ys \<Rightarrow> Inr (y # ys)))"

fun to_numeric_val :: "lib \<Rightarrow> raw \<Rightarrow> error + real option" where
  "to_numeric_val L Null = Inr None"
| "to_numeric_val L (RNum x) = Inr (Some x)"
| "to_numeric_val L (RBool b) = Inr (Some (if b then 1 else 0))"
| "to_numeric_val L (RStr s) =
     (case str_to_numeric L s of None \<Rightarrow> Inl ValueError | Some v \<Rightarrow> Inr v)"

definition to_numeric :: "lib \<Rightarrow> raw list \<Rightarrow> error + column" where
  "to_numeric L vs = (case collect (to_numeric_val L) vs of Inl e \<Rightarrow> Inl e | Inr xs \<Rightarrow> Inr (Float xs))"

fun to_datetime_val :: "lib \<Rightarrow> raw \<Rightarrow> error + int option" where
  "to_datetime_val L Null = Inr None"
| "to_datetime_val L v =
     (case val_to_datetime L v of None \<Rightarrow> Inl ValueError | Some t \<Rightarrow> Inr (Some t))"

definition to_datetime :: "lib \<Rightarrow> raw list \<Rightarrow> error + column" where
  "to_datetime L vs = (case collect (to_datetime_val L) vs of Inl e \<Rightarrow> Inl e | Inr ts \<Rightarrow> Inr (Datetime ts))"

text \<open>The loop body of \<^verbatim>\<open>_coerce_dataframe\<close>: only object columns are touched; both
  exceptions are swallowed.\<close>

fun coerce_column :: "lib \<Rightarrow> column \<Rightarrow> column" where
  "coerce_column L (Object vs) =
     (case to_numeric L vs of
        Inr c \<Rightarrow> c
      | Inl _ \<Rightarrow> (case to_datetime L vs of Inr c \<Rightarrow> c | Inl _ \<Rightarrow> Object vs))"
| "coerce_column L c = c"

definition coerce_dataframe :: "lib \<Rightarrow> row list \<Rightarrow> DataFrame" where
  "coerce_dataframe L data =
     (let df = DataFrame_of data
      in df\<lparr>columns := map (\<lambda>(n, c). (n, coerce_column L c)) (columns df)\<rparr>)"

fun is_number_col :: "column \<Rightarrow> bool" where
  "is_number_col (Float _) = True"
| "is_number_col _ = False"

fun is_datetime_col :: "column \<Rightarrow> bool" where
  "is_datetime_col (Datetime _) = True"
| "is_datetime_col _ = False"

text \<open>\<^verbatim>\<open>select_dtypes(include=[np.number]).columns.tolist()\<close> and its datetime sibling.\<close>

definition number_columns :: "DataFrame \<Rightarrow> string list" where
  "number_columns df = map fst (filter (\<lambda>(n, c). is_number_col c) (columns df))"

definition datetime_columns :: "DataFrame \<Rightarrow> string list" where
  "datetime_columns df = map fst (filter (\<lambda>(n, c). is_datetime_col c) (columns df))"

section \<open>Anomaly detection\<close>

text \<open>Arithmetic on a column: floats and booleans (as 0/1) are numbers, pandas refuses
  datetime and object columns with a TypeError. The frame has been through
  \<^verbatim>\<open>dropna\<close>, so the value written for a gap is never read.\<close>

fun numbers :: "column \<Rightarrow> error + real list" where
  "numbers (Float xs) = Inr (map (\<lambda>v. case v of None \<Rightarrow> 0 | Some x \<Rightarrow> x) xs)"
| "numbers (Boolean bs) = Inr (map (\<lambda>b. if b then 1 else 0) bs)"
| "numbers (Datetime _) = Inl TypeError"
| "numbers (Object _) = Inl TypeError"

definition mean :: "real list \<Rightarrow> real" where
  "mean xs = sum_list xs / real (length xs)"

definition std0 :: "real list \<Rightarrow> real" where
  "std0 xs = sqrt (sum_list (map (\<lambda>x. (x - mean xs)\<^sup>2) xs) / real (length xs))"

definition eps :: real where
  "eps = 1 / 10 ^ 9"

definition zscore :: "real list \<Rightarrow> real list" where
  "zscore xs = map (\<lambda>x. (x - mean xs) / (std0 xs + eps)) xs"

text \<open>\<^verbatim>\<open>(np.abs(z) > 3).any(axis=1)\<close>, column by column.\<close>

fun any_axis1 :: "nat \<Rightarrow> real list list \<Rightarrow> bool list" where
  "any_axis1 n [] = replicate n False"
| "any_axis1 n (z # zs) = map (\<lambda>(a, b). \<bar>a\<bar> > 3 \<or> b) (zip z (any_axis1 n zs))"

definition zscore_fallback :: "DataFrame \<Rightarrow> error + nat list" where
  "zscore_fallback X =
     (case collect numbers (map snd (columns X)) of
        Inl e \<Rightarrow> Inl e
      | Inr cs \<Rightarrow> Inr (select (any_axis1 (length (index X)) (map zscore cs)) (index X)))"

text \<open>The rows of the matrix handed to the model.\<close>

definition transpose_rows :: "nat \<Rightarrow> real list list \<Rightarrow> real list list" where
  "transpose_rows n cs = map (\<lambda>i. map (\<lambda>c. c ! i) cs) [0..<n]"

definition isolation_forest :: "lib \<Rightarrow> DataFrame \<Rightarrow> error + nat list" where
  "isolation_forest L X =
     (case IsolationForest L of
        None \<Rightarrow> Inl RuntimeError
      | Some fit_predict \<Rightarrow>
          (case collect numbers (map snd (columns X)) of
             Inl e \<Rightarrow> Inl e
           | Inr cs \<Rightarrow>
               (case fit_predict (transpose_rows (length (index X)) cs) of
                  Inl e \<Rightarrow> Inl e
                | Inr pred \<Rightarrow>
                    if length pred \<noteq> length (index X) then Inl IndexError
                    else Inr (select (map (\<lambda>p. p = - 1) pred) (index X)))))"

definition selected_columns :: "DataFrame \<Rightarrow> string list option \<Rightarrow> string list" where
  "selected_columns df numeric_columns =
     (case numeric_columns of
        None \<Rightarrow> number_columns df
      | Some cs \<Rightarrow> if cs = [] then number_columns df else cs)"

definition anomaly :: "lib \<Rightarrow> row list \<Rightarrow> string list option \<Rightarrow> error + nat list" where
  "anomaly L data numeric_columns =
     (let df = coerce_dataframe L data in
      if empty df then Inr []
      else
        let numeric_cols = selected_columns df numeric_columns in
        if numeric_cols = [] then Inr []
        else
          (case getitem df numeric_cols of
             Inl e \<Rightarrow> Inl e
           | Inr sub \<Rightarrow>
               let X = dropna sub in
               if empty X then Inr []
               else
                 (case isolation_forest L X of
                    Inr idx \<Rightarrow> Inr idx
                  | Inl _ \<Rightarrow> zscore_fallback X)))"

section \<open>Insight generation\<close>

text \<open>An insight keeps the values the f-string renders; the rendering to two decimals is
  not modelled.\<close>

datatype insight =
    Summary string real real real real real
  | Trend string real
  | Correlation string string real
  | Outliers nat string

record InsightsResult =
  r_insights :: "insight list"
  r_row_count :: "nat option"
  r_column_count :: "nat option"

text \<open>\<^verbatim>\<open>df[col]\<close> for a name taken from the frame itself, and \<^verbatim>\<open>.dropna()\<close> on a float
  column.\<close>

definition float_values :: "DataFrame \<Rightarrow> string \<Rightarrow> real option list" where
  "float_values df c = (case map_of (columns df) c of Some (Float xs) \<Rightarrow> xs | _ \<Rightarrow> [])"

definition datetime_values :: "DataFrame \<Rightarrow> string \<Rightarrow> int option list" where
  "datetime_values df c = (case map_of (columns df) c of Some (Datetime ts) \<Rightarrow> ts | _ \<Rightarrow> [])"

definition present :: "'a option list \<Rightarrow> 'a list" where
  "present xs = concat (map (\<lambda>v. case v of None \<Rightarrow> [] | Some x \<Rightarrow> [x]) xs)"

definition median :: "real list \<Rightarrow> real" where
  "median xs =
     (let s = sort xs; n = length s
      in if odd n then s ! (n div 2) else (s ! (n div 2 - 1) + s ! (n div 2)) / 2)"

definition minimum :: "real list \<Rightarrow> real" where
  "minimum xs = fold min (tl xs) (hd xs)"

definition maximum :: "real list \<Rightarrow> real" where
  "maximum xs = fold max (tl xs) (hd xs)"

definition summary :: "DataFrame \<Rightarrow> string \<Rightarrow> insight list" where
  "summary df col =
     (let s = present (float_values df col)
      in if length s = 0 then []
         else [Summary col (mean s) (median s) (std0 s) (minimum s) (maximum s)])"

text \<open>The rows that have both a timestamp and a value, in ascending time order.
  \<^const>\<open>sort_key\<close> is stable; pandas leaves the order of equal timestamps to the sorting
  algorithm.\<close>

definition joined :: "int option list \<Rightarrow> real option list \<Rightarrow> (int \<times> real) list" where
  "joined ts vs =
     concat (map (\<lambda>(t, v). case (t, v) of (Some a, Some b) \<Rightarrow> [(a, b)] | _ \<Rightarrow> []) (zip ts vs))"

definition trend_points :: "DataFrame \<Rightarrow> string \<Rightarrow> string \<Rightarrow> (int \<times> real) list" where
  "trend_points df dt val = sort_key fst (joined (datetime_values df dt) (float_values df val))"

definition trend :: "DataFrame \<Rightarrow> string list \<Rightarrow> string list \<Rightarrow> insight list" where
  "trend df dt_cols numeric_cols =
     (if dt_cols \<noteq> [] \<and> numeric_cols \<noteq> [] then
        let dt = hd dt_cols; val = hd numeric_cols;
            ts = trend_points df dt val
        in if length ts \<ge> 4 then
             let first = snd (hd ts); last = snd (List.last ts);
                 change = ((last - first) / (if first \<noteq> 0 then first else 1)) * 100
             in [Trend val change]
           else []
      else [])"

text \<open>Pearson correlation on the rows where both columns have a value, as
  \<^verbatim>\<open>DataFrame.corr\<close> computes it: NaN when the divisor vanishes.\<close>

definition pearson :: "real option list \<Rightarrow> real option list \<Rightarrow> real option" where
  "pearson as bs =
     (let ps = concat (map (\<lambda>(a, b). case (a, b) of (Some x, Some y) \<Rightarrow> [(x, y)] | _ \<Rightarrow> []) (zip as bs));
          xs = map fst ps; ys = map snd ps;
          sxx = sum_list (map (\<lambda>x. (x - mean xs)\<^sup>2) xs);
          syy = sum_list (map (\<lambda>y. (y - mean ys)\<^sup>2) ys);
          sxy = sum_list (map (\<lambda>(x, y). (x - mean xs) * (y - mean ys)) ps);
          divisor = sqrt (sxx * syy)
      in if ps = [] \<or> divisor = 0 then None else Some (sxy / divisor))"

text \<open>The unstacked matrix of absolute correlations, without the NaN entries and the
  entries of at least 0.999, in descending order.\<close>

definition corr_pairs :: "DataFrame \<Rightarrow> string list \<Rightarrow> ((string \<times> string) \<times> real) list" where
  "corr_pairs df numeric_cols =
     sort_key (\<lambda>(_, v). - v)
       (filter (\<lambda>(_, v). v < 999 / 1000)
         (concat (map (\<lambda>a. concat (map (\<lambda>b.
            case pearson (float_values df a) (float_values df b) of
              None \<Rightarrow> []
            | Some r \<Rightarrow> [((a, b), \<bar>r\<bar>)]) numeric_cols)) numeric_cols)))"

definition correlation :: "DataFrame \<Rightarrow> string list \<Rightarrow> insight list" where
  "correlation df numeric_cols =
     (if length numeric_cols \<ge> 2 then
        (case corr_pairs df numeric_cols of
           [] \<Rightarrow> []
         | ((a, b), v) # _ \<Rightarrow> [Correlation a b v])
      else [])"

text \<open>\<^verbatim>\<open>Series.quantile\<close> with linear interpolation.\<close>

definition quantile :: "real list \<Rightarrow> real \<Rightarrow> real" where
  "quantile xs q =
     (let s = sort xs; pos = q * real (length s - 1); lo = nat \<lfloor>pos\<rfloor>; frac = pos - real lo
      in if lo + 1 < length s then s ! lo + frac * (s ! (lo + 1) - s ! lo) else s ! lo)"

definition iqr_outliers :: "DataFrame \<Rightarrow> string \<Rightarrow> insight list" where
  "iqr_outliers df col =
     (let s = present (float_values df col)
      in if length s < 8 then []
         else
           let q1 = quantile s (1 / 4); q3 = quantile s (3 / 4); iqr = q3 - q1;
               lower = q1 - 3 / 2 * iqr; upper = q3 + 3 / 2 * iqr;
               outliers = length (filter (\<lambda>x. x < lower \<or> x > upper) s)
           in if outliers > 0 then [Outliers outliers col] else [])"

definition insights :: "lib \<Rightarrow> row list \<Rightarrow> InsightsResult" where
  "insights L data =
     (let df = coerce_dataframe L data in
      if empty df then \<lparr>r_insights = [], r_row_count = None, r_column_count = None\<rparr>
      else
        let numeric_cols = number_columns df;
            dt_cols = datetime_columns df
        in \<lparr>r_insights =
              concat (map (summary df) (take 10 numeric_cols))
              @ trend df dt_cols numeric_cols
              @ correlation df numeric_cols
              @ concat (map (iqr_outliers df) (take 5 numeric_cols)),
            r_row_count = Some (length (index df)),
            r_column_count = Some (length (columns df))\<rparr>)"

section \<open>Forecasting\<close>

record ForecastResult =
  r_message :: "string option"
  r_forecast :: "real option list"
  r_steps :: "nat option"

text \<open>Python truthiness of an optional string: None and the empty string are false.\<close>

fun truthy :: "string option \<Rightarrow> bool" where
  "truthy None = False"
| "truthy (Some s) = (s \<noteq> [])"

definition first_datetime :: "DataFrame \<Rightarrow> string option" where
  "first_datetime df = (case datetime_columns df of [] \<Rightarrow> None | c # _ \<Rightarrow> Some c)"

fun take_col :: "nat list \<Rightarrow> column \<Rightarrow> column" where
  "take_col ps (Float xs) = Float (map (nth xs) ps)"
| "take_col ps (Boolean bs) = Boolean (map (nth bs) ps)"
| "take_col ps (Datetime ts) = Datetime (map (nth ts) ps)"
| "take_col ps (Object vs) = Object (map (nth vs) ps)"

text \<open>
  The series over a time column (lines 184 and 185 of the source): the two columns without
  the rows that miss either value, sorted by time, re-indexed at the inferred frequency.
  Selecting the same label twice makes \<^verbatim>\<open>sort_values\<close> raise; \<^verbatim>\<open>pd.infer_freq\<close>
  raises a TypeError on a numeric or boolean column and a ValueError on fewer than three
  timestamps; what pandas makes of an object column is left to the library parameter.
  None of this is inside the \<^verbatim>\<open>try\<close> block.
\<close>

definition time_series :: "lib \<Rightarrow> DataFrame \<Rightarrow> string \<Rightarrow> string \<Rightarrow> error + column" where
  "time_series L df dt_col target =
     (if dt_col = target then Inl ValueError
      else
        (case getitem df [dt_col, target] of
           Inl e \<Rightarrow> Inl e
         | Inr sub \<Rightarrow>
             (case columns (dropna sub) of
                [(_, Datetime ts), (_, vc)] \<Rightarrow>
                  let times = present ts;
                      order = sort_key (\<lambda>i. times ! i) [0..<length times];
                      stamps = map (nth times) order
                  in if length stamps < 3 then Inl ValueError
                     else lib_asfreq L (lib_infer_freq L stamps) stamps (take_col order vc)
              | [(_, Object vs), (_, vc)] \<Rightarrow> lib_object_axis L vs vc
              | _ \<Rightarrow> Inl TypeError)))"

text \<open>The series over the row position (lines 188 and 189).\<close>

definition index_series :: "DataFrame \<Rightarrow> string \<Rightarrow> error + column" where
  "index_series df target =
     (case getitem df [target] of
        Inl e \<Rightarrow> Inl e
      | Inr sub \<Rightarrow> (case columns (dropna sub) of [(_, c)] \<Rightarrow> Inr c | _ \<Rightarrow> Inl KeyError))"

text \<open>\<^verbatim>\<open>ts.astype(float)\<close>, \<^verbatim>\<open>ts.rolling(window=window).mean()\<close> and
  \<^verbatim>\<open>float(ts.iloc[-1])\<close>. Floats and booleans are numbers; on a datetime or object
  series pandas refuses the arithmetic.\<close>

fun astype_float :: "column \<Rightarrow> error + real option list" where
  "astype_float (Float xs) = Inr xs"
| "astype_float (Boolean bs) = Inr (map (\<lambda>b. Some (if b then 1 else 0)) bs)"
| "astype_float (Datetime _) = Inl TypeError"
| "astype_float (Object _) = Inl ValueError"

definition rolling_mean :: "nat \<Rightarrow> real option list \<Rightarrow> real option list" where
  "rolling_mean w xs =
     map (\<lambda>i. if i + 1 < w then None
               else let win = take w (drop (i + 1 - w) xs)
                    in if list_all (\<lambda>v. v \<noteq> None) win then Some (mean (present win)) else None)
         [0..<length xs]"

fun rolling :: "nat \<Rightarrow> column \<Rightarrow> error + real option list" where
  "rolling w (Float xs) = Inr (rolling_mean w xs)"
| "rolling w (Boolean bs) = Inr (rolling_mean w (map (\<lambda>b. Some (if b then 1 else 0)) bs))"
| "rolling w (Datetime _) = Inl TypeError"
| "rolling w (Object _) = Inl DataError"

fun iloc_last :: "column \<Rightarrow> error + real option" where
  "iloc_last (Float xs) = (if xs = [] then Inl IndexError else Inr (last xs))"
| "iloc_last (Boolean bs) = (if bs = [] then Inl IndexError else Inr (Some (if last bs then 1 else 0)))"
| "iloc_last (Datetime ts) = (if ts = [] then Inl IndexError else Inl TypeError)"
| "iloc_last (Object vs) = (if vs = [] then Inl IndexError else Inl TypeError)"

text \<open>The body of the \<^verbatim>\<open>try\<close> block: ARIMA(1,1,1), fitted and asked for 12 steps.\<close>

definition arima :: "lib \<Rightarrow> column \<Rightarrow> error + real option list" where
  "arima L ts =
     (case sm L of
        Some fit_forecast \<Rightarrow>
          if col_len ts \<ge> 8 then
            (case astype_float ts of Inl e \<Rightarrow> Inl e | Inr xs \<Rightarrow> fit_forecast xs)
          else Inl RuntimeError
      | None \<Rightarrow> Inl RuntimeError)"

definition window_of :: "nat \<Rightarrow> nat" where
  "window_of n = (if n \<ge> 2 then min 5 (max 2 (n div 4)) else 2)"

text \<open>The body of the \<^verbatim>\<open>except\<close> block.\<close>

definition moving_average :: "column \<Rightarrow> error + real option list" where
  "moving_average ts =
     (let window = window_of (col_len ts) in
      case rolling window ts of
        Inl e \<Rightarrow> Inl e
      | Inr r \<Rightarrow>
          let ma = present r in
          if length ma \<noteq> 0 then Inr (replicate 12 (Some (last ma)))
          else (case iloc_last ts of Inl e \<Rightarrow> Inl e | Inr v \<Rightarrow> Inr (replicate 12 v)))"

definition forecast_values :: "lib \<Rightarrow> column \<Rightarrow> error + real option list" where
  "forecast_values L ts = (case arima L ts of Inr fc \<Rightarrow> Inr fc | Inl _ \<Rightarrow> moving_average ts)"

definition forecast :: "lib \<Rightarrow> row list \<Rightarrow> string option \<Rightarrow> string \<Rightarrow> error + ForecastResult" where
  "forecast L data date_column target_column =
     (let df = coerce_dataframe L data; target = target_column in
      if empty df \<or> target \<notin> set (column_names df) then
        Inr \<lparr>r_message = Some ''No data or missing target.'', r_forecast = [], r_steps = None\<rparr>
      else
        let dt_col = (if \<not> truthy date_column then first_datetime df else date_column) in
        (case (if truthy dt_col \<and> the dt_col \<in> set (column_names df)
               then time_series L df (the dt_col) target
               else index_series df target) of
           Inl e \<Rightarrow> Inl e
         | Inr ts \<Rightarrow>
             (case forecast_values L ts of
                Inl e \<Rightarrow> Inl e
              | Inr fv \<Rightarrow> Inr \<lparr>r_message = None, r_forecast = fv, r_steps = Some 12\<rparr>)))"

section \<open>The words of the specification\<close>



definition clamp :: "nat \<Rightarrow> nat \<Rightarrow> nat \<Rightarrow> nat" where
  "clamp x lo hi = min hi (max lo x)"

section \<open>Runtimes and requests of the examples\<close>

text \<open>
  \<open>bare\<close>: neither scikit-learn nor statsmodels is installed and the parsers accept no
  string. \<open>dated\<close>: the datetime parser knows two dates. \<open>with_arima\<close>: statsmodels is
  installed, with a model that needs eight points and repeats the last observation twelve
  times. \<open>failing_arima\<close>: statsmodels is installed and every fit raises.
\<close>

definition bare :: lib where
  "bare = \<lparr>str_to_numeric = (\<lambda>_. None), val_to_datetime = (\<lambda>_. None), sm = None,
           IsolationForest = None, lib_infer_freq = (\<lambda>_. None),
           lib_asfreq = (\<lambda>_ _ c. Inr c), lib_object_axis = (\<lambda>_ c. Inr c)\<rparr>"

definition dated :: lib where
  "dated = bare\<lparr>val_to_datetime :=
     (\<lambda>v. if v = RStr ''2024-01-01'' then Some 1704067200000000000
          else if v = RStr ''2024-01-02'' then Some 1704153600000000000
          else None)\<rparr>"

definition with_arima :: lib where
  "with_arima = bare\<lparr>sm := Some (\<lambda>xs. if length xs < 8 then Inl ValueError
                                      else Inr (replicate 12 (last xs)))\<rparr>"

definition failing_arima :: lib where
  "failing_arima = bare\<lparr>sm := Some (\<lambda>xs. Inl ValueError)\<rparr>"

text \<open>Rows with a single field \<open>k\<close>, one row for each value.\<close>

definition rows_of :: "string \<Rightarrow> raw list \<Rightarrow> row list" where
  "rows_of k vs = map (\<lambda>v. [(k, v)]) vs"

text \<open>The two anomaly scenarios of the specification, eleven rows whose last one is an
  outlier by the z-score rule, and the same eleven rows behind a row with a missing value
  (as rows, and as the frame they become).\<close>

definition small_sample :: "row list" where
  "small_sample = rows_of ''v'' (map RNum [1, 2, 3, 100])"

definition wide_outlier :: "row list" where
  "wide_outlier = rows_of ''v'' (map RNum [1, 2, 3, 2, 1, 2, 3, 500])"

definition eleven_rows :: "row list" where
  "eleven_rows = rows_of ''v'' (map RNum [0, 0, 0, 0, 0, 0, 0, 0, 0, 0, 110])"

definition gap_then_eleven :: "row list" where
  "gap_then_eleven = rows_of ''v'' (Null # map RNum [0, 0, 0, 0, 0, 0, 0, 0, 0, 0, 110])"

definition eleven_frame :: DataFrame where
  "eleven_frame = \<lparr>index = [0, 1, 2, 3, 4, 5, 6, 7, 8, 9, 10],
                   columns = [(''v'', Float (map Some [0, 0, 0, 0, 0, 0, 0, 0, 0, 0, 110]))]\<rparr>"

text \<open>Boolean columns of one and of two rows.\<close>

definition one_flag :: "row list" where
  "one_flag = rows_of ''b'' [RBool True]"



text \<open>The insight scenario of the specification, as rows and as the frame they become.\<close>

definition x_rows :: "row list" where
  "x_rows = [[(''x'', RNum 1), (''x2'', RNum 2)], [(''x'', RNum 2), (''x2'', RNum 4)],
             [(''x'', RNum 3), (''x2'', RNum 6)], [(''x'', RNum 4), (''x2'', RNum 8)]]"

definition x_frame :: DataFrame where
  "x_frame = \<lparr>index = [0, 1, 2, 3],
              columns = [(''x'', Float [Some 1, Some 2, Some 3, Some 4]),
                         (''x2'', Float [Some 2, Some 4, Some 6, Some 8])]\<rparr>"


definition two_days :: "row list" where
  "two_days = [[(''d'', RStr ''2024-01-01''), (''y'', RNum 1)],
               [(''d'', RStr ''2024-01-02''), (''y'', RNum 2)]]"

section \<open>Properties\<close>

subsection \<open>Empty input\<close>

lemma coerce_empty: "coerce_dataframe L [] = \<lparr>index = [], columns = []\<rparr>"
  by (simp add: coerce_dataframe_def DataFrame_of_def first_seen_def)

text \<open>
  C10. For zero records generate-insights returns the empty insight list and nothing else:
  neither the row count nor the column count is part of the response.
\<close>

theorem insights_empty_input:
  "insights L [] = \<lparr>r_insights = [], r_row_count = None, r_column_count = None\<rparr>"
  by (simp add: insights_def coerce_empty empty_def)

subsection \<open>Row identifiers of the anomaly detector\<close>

lemma select_mem:
  "x \<in> set (select m xs) \<Longrightarrow> \<exists>p. p < length m \<and> p < length xs \<and> m ! p \<and> xs ! p = x"
proof (induction m xs rule: select.induct)
  case (1 b ms y ys)
  have "(b \<and> x = y) \<or> x \<in> set (select ms ys)"
    using "1.prems" by (auto split: if_splits)
  then show ?case
  proof
    assume "b \<and> x = y"
    then have "0 < length (b # ms) \<and> 0 < length (y # ys) \<and> (b # ms) ! 0 \<and> (y # ys) ! 0 = x" by simp
    then show ?thesis by blast
  next
    assume a: "x \<in> set (select ms ys)"
    have "\<exists>p. p < length ms \<and> p < length ys \<and> ms ! p \<and> ys ! p = x"
    proof (cases b)
      case True then show ?thesis using "1.IH"(1) a by simp
    next
      case False then show ?thesis using "1.IH"(2) a by simp
    qed
    then obtain p where "p < length ms \<and> p < length ys \<and> ms ! p \<and> ys ! p = x" by blast
    then have "Suc p < length (b # ms) \<and> Suc p < length (y # ys) \<and> (b # ms) ! Suc p \<and> (y # ys) ! Suc p = x" by simp
    then show ?thesis by blast
  qed
qed simp_all

lemma keep_mask_nth:
  "p < length (keep_mask n cs) \<Longrightarrow> keep_mask n cs ! p \<Longrightarrow> c \<in> set cs \<Longrightarrow>
   p < length (isna c) \<and> \<not> isna c ! p"
  by (induction cs) auto

lemma getitem_cols_Inr:
  "getitem_cols cs ns = Inr r \<Longrightarrow> map fst r = ns \<and> (\<forall>(n, c)\<in>set r. map_of cs n = Some c)"
  by (induction ns arbitrary: r) (auto split: option.splits sum.splits)

lemma isolation_forest_ids: "isolation_forest L X = Inr ids \<Longrightarrow> \<exists>m. ids = select m (index X)"
  by (auto simp: isolation_forest_def split: option.splits sum.splits if_splits)

lemma zscore_fallback_ids: "zscore_fallback X = Inr ids \<Longrightarrow> \<exists>m. ids = select m (index X)"
  by (auto simp: zscore_fallback_def split: sum.splits)

lemma anomaly_ids:
  assumes "anomaly L data nc = Inr ids" and "i \<in> set ids"
  shows "\<exists>sub m. getitem (coerce_dataframe L data) (selected_columns (coerce_dataframe L data) nc) = Inr sub
           \<and> ids = select m (index (dropna sub))"
  using assms
  by (auto simp: anomaly_def Let_def split: if_splits sum.splits
      dest: isolation_forest_ids zscore_fallback_ids)



lemma select_subset: "set (select m xs) \<subseteq> set xs"
  by (induction m xs rule: select.induct) auto

lemma index_coerce: "index (coerce_dataframe L data) = [0..<length data]"
  by (simp add: coerce_dataframe_def DataFrame_of_def)

text \<open>
  C9. Every identifier detect-anomalies returns, whichever strategy produced it, is the
  position of an input row, and that row has a value in every selected column: it is a
  label of the original input that survived the missing-value drop, not a position in the
  filtered subset.
\<close>

theorem anomaly_ids_original:
  assumes "anomaly L data numeric_columns = Inr ids" and "i \<in> set ids"
  shows "i < length data \<and>
         (\<forall>c\<in>set (selected_columns (coerce_dataframe L data) numeric_columns).
            \<exists>col. map_of (columns (coerce_dataframe L data)) c = Some col
                  \<and> i < length (isna col) \<and> \<not> isna col ! i)"
proof -
  define df where "df = coerce_dataframe L data"
  obtain sub m where sub: "getitem df (selected_columns df numeric_columns) = Inr sub"
    and ids: "ids = select m (index (dropna sub))"
    using anomaly_ids [OF assms] unfolding df_def by blast
  obtain r where r: "getitem_cols (columns df) (selected_columns df numeric_columns) = Inr r"
    and subr: "sub = \<lparr>index = index df, columns = r\<rparr>"
    using sub by (auto simp: getitem_def split: sum.splits)
  define km where "km = keep_mask (length data) (map snd r)"
  have idx: "index (dropna sub) = select km [0..<length data]"
    by (simp add: dropna_def subr df_def index_coerce Let_def km_def)
  have "set ids \<subseteq> set (index (dropna sub))"
    unfolding ids by (rule select_subset)
  with assms(2) have "i \<in> set (index (dropna sub))" ..
  then have "i \<in> set (select km [0..<length data])"
    by (simp only: idx)
  from select_mem [OF this]
  obtain p where p: "p < length km" "p < length [0..<length data]" "km ! p" "[0..<length data] ! p = i"
    by (elim exE conjE)
  then have pi: "p = i" and il: "i < length data" by simp_all
  from getitem_cols_Inr [OF r] have names: "map fst r = selected_columns df numeric_columns"
    and look: "\<forall>(n, c)\<in>set r. map_of (columns df) n = Some c" by simp_all
  have "\<exists>col. map_of (columns df) c = Some col \<and> i < length (isna col) \<and> \<not> isna col ! i"
    if c: "c \<in> set (selected_columns df numeric_columns)" for c
  proof -
    from c have "c \<in> set (map fst r)" unfolding names .
    then obtain col where mem: "(c, col) \<in> set r" by auto
    then have cm: "col \<in> set (map snd r)" by force
    have "i < length (isna col) \<and> \<not> isna col ! i"
      using keep_mask_nth [OF _ _ cm, of i "length data"] p(1,3) pi by (simp add: km_def)
    moreover have "map_of (columns df) c = Some col" using look mem by auto
    ultimately show ?thesis by blast
  qed
  with il show ?thesis unfolding df_def by blast
qed

subsection \<open>The z-score rule on concrete columns\<close>

lemma eps_pos: "0 < eps" by (simp add: eps_def)

lemma flag_iff: "0 \<le> v \<Longrightarrow> \<bar>d / (sqrt v + eps)\<bar> > 3 \<longleftrightarrow> \<bar>d\<bar> > 3 * (sqrt v + eps)"
proof -
  assume "0 \<le> v"
  then have p: "0 < sqrt v + eps" using eps_pos by (simp add: add_nonneg_pos)
  then have "\<bar>d / (sqrt v + eps)\<bar> = \<bar>d\<bar> / (sqrt v + eps)" by simp
  then show ?thesis using p by (simp add: pos_less_divide_eq mult.commute)
qed

lemma not_flagged:
  "0 \<le> b \<Longrightarrow> b\<^sup>2 \<le> v \<Longrightarrow> \<bar>x - m\<bar> \<le> 3 * b \<Longrightarrow> (\<bar>(x - m) / (sqrt v + eps)\<bar> > 3) = False"
proof -
  assume b: "0 \<le> b" and v: "b\<^sup>2 \<le> v" and d: "\<bar>x - m\<bar> \<le> 3 * b"
  have v0: "0 \<le> v" using v by (meson order_trans zero_le_power2)
  have "b \<le> sqrt v" using b v by (simp add: real_le_rsqrt)
  then have "\<bar>x - m\<bar> \<le> 3 * (sqrt v + eps)" using d eps_pos by simp
  then show ?thesis using flag_iff [OF v0] by simp
qed

lemma flagged:
  "0 \<le> v \<Longrightarrow> 0 < c \<Longrightarrow> v \<le> c\<^sup>2 \<Longrightarrow> 3 * (c + eps) < \<bar>x - m\<bar> \<Longrightarrow> (\<bar>(x - m) / (sqrt v + eps)\<bar> > 3) = True"
proof -
  assume v0: "0 \<le> v" and c: "0 < c" and v: "v \<le> c\<^sup>2" and d: "3 * (c + eps) < \<bar>x - m\<bar>"
  have "sqrt v \<le> c" using c v by (simp add: real_le_lsqrt)
  then have "3 * (sqrt v + eps) < \<bar>x - m\<bar>" using d by simp
  then show ?thesis using flag_iff [OF v0] by simp
qed

lemma any_axis1_single: "length z = n \<Longrightarrow> any_axis1 n [z] = map (\<lambda>a. \<bar>a\<bar> > 3) z"
  by (induction z arbitrary: n) (auto simp: map_zip_map2 zip_replicate2 intro!: nth_equalityI)

lemma zscore_fallback_single:
  "ys = map Some xs \<Longrightarrow> length idx = length xs \<Longrightarrow>
   zscore_fallback \<lparr>index = idx, columns = [(n, Float ys)]\<rparr> =
     Inr (select (map (\<lambda>x. \<bar>(x - mean xs) / (std0 xs + eps)\<bar> > 3) xs) idx)"
  by (simp add: zscore_fallback_def any_axis1_single zscore_def comp_def del: any_axis1.simps)

lemma remdups_replicate_one: "remdups (replicate n x) = (if n = 0 then [] else [x])"
  by (induction n) auto

lemma first_seen_rows_of: "vs \<noteq> [] \<Longrightarrow> first_seen (rows_of k vs) = [k]"
proof -
  assume "vs \<noteq> []"
  have "concat (map (map fst) (rows_of k vs)) = replicate (length vs) k"
    by (induction vs) (simp_all add: rows_of_def)
  then show ?thesis using \<open>vs \<noteq> []\<close> by (simp add: first_seen_def remdups_replicate_one)
qed

lemma get_raw_rows_of: "map (\<lambda>r. get_raw r k) (rows_of k vs) = vs"
  by (induction vs) (simp_all add: rows_of_def get_raw_def)

lemma coerce_rows_of:
  "vs \<noteq> [] \<Longrightarrow> coerce_dataframe L (rows_of k vs) =
     \<lparr>index = [0..<length vs], columns = [(k, coerce_column L (infer_column vs))]\<rparr>"
  by (simp add: coerce_dataframe_def DataFrame_of_def first_seen_rows_of get_raw_rows_of)
     (simp add: rows_of_def)

lemma infer_column_nums: "xs \<noteq> [] \<Longrightarrow> infer_column (map RNum xs) = Float (map Some xs)"
  by (cases xs) (simp_all add: infer_column_def list_all_iff comp_def)

lemma select_all: "length ys = n \<Longrightarrow> select (replicate n True) ys = ys"
  by (induction ys arbitrary: n) auto

lemma keep_mask_complete: "length xs = n \<Longrightarrow> keep_mask n [Float (map Some xs)] = replicate n True"
  by (auto intro!: nth_equalityI)

lemma dropna_complete:
  "length idx = length xs \<Longrightarrow>
   dropna \<lparr>index = idx, columns = [(k, Float (map Some xs))]\<rparr> = \<lparr>index = idx, columns = [(k, Float (map Some xs))]\<rparr>"
  by (simp add: dropna_def keep_mask_complete select_all del: keep_mask.simps)

lemma anomaly_single_float:
  assumes "xs \<noteq> []" and "IsolationForest L = None"
    and "nc = None \<or> nc = Some [] \<or> nc = Some [k]"
  shows "anomaly L (rows_of k (map RNum xs)) nc =
     Inr (select (map (\<lambda>x. \<bar>(x - mean xs) / (std0 xs + eps)\<bar> > 3) xs) [0..<length xs])"
proof -
  let ?df = "\<lparr>index = [0..<length xs], columns = [(k, Float (map Some xs))]\<rparr>"
  have df: "coerce_dataframe L (rows_of k (map RNum xs)) = ?df"
    using assms(1) by (simp add: coerce_rows_of infer_column_nums)
  have sel: "selected_columns ?df nc = [k]"
    using assms(3) by (auto simp: selected_columns_def number_columns_def)
  have get: "getitem ?df [k] = Inr ?df" by (simp add: getitem_def)
  have ne: "\<not> empty ?df" using assms(1) by (simp add: empty_def)
  have iso: "isolation_forest L ?df = Inl RuntimeError"
    by (simp add: isolation_forest_def assms(2))
  show ?thesis
    unfolding anomaly_def df Let_def sel get
    by (simp add: ne dropna_complete iso zscore_fallback_single)
qed

lemma mean_small: "mean [1, 2, 3, 100] = 53 / 2"
  by (simp add: mean_def)

lemma std_small: "std0 [1, 2, 3, 100] = sqrt (7205 / 4)"
  by (simp add: std0_def mean_small power2_eq_square)

lemma mask_small:
  "map (\<lambda>x. \<bar>(x - mean [1, 2, 3, 100]) / (std0 [1, 2, 3, 100] + eps)\<bar> > 3) [1, 2, 3, 100]
     = [False, False, False, False]"
  unfolding mean_small std_small list.map list.inject
  by (intro conjI refl not_flagged [where b = 40]; simp add: power2_eq_square)

lemma mean_wide: "mean [1, 2, 3, 2, 1, 2, 3, 500] = 257 / 4"
  by (simp add: mean_def)

lemma std_wide: "std0 [1, 2, 3, 2, 1, 2, 3, 500] = sqrt (434015 / 16)"
  by (simp add: std0_def mean_wide power2_eq_square)

lemma mask_wide:
  "map (\<lambda>x. \<bar>(x - mean [1, 2, 3, 2, 1, 2, 3, 500]) / (std0 [1, 2, 3, 2, 1, 2, 3, 500] + eps)\<bar> > 3)
       [1, 2, 3, 2, 1, 2, 3, 500]
     = [False, False, False, False, False, False, False, False]"
  unfolding mean_wide std_wide list.map list.inject
  by (intro conjI refl not_flagged [where b = 160]; simp add: power2_eq_square)

lemma mean_eleven: "mean [0, 0, 0, 0, 0, 0, 0, 0, 0, 0, 110] = 10"
  by (simp add: mean_def)

lemma std_eleven: "std0 [0, 0, 0, 0, 0, 0, 0, 0, 0, 0, 110] = sqrt 1000"
  by (simp add: std0_def mean_eleven power2_eq_square)

lemma mask_eleven:
  "map (\<lambda>x. \<bar>(x - mean [0, 0, 0, 0, 0, 0, 0, 0, 0, 0, 110])
               / (std0 [0, 0, 0, 0, 0, 0, 0, 0, 0, 0, 110] + eps)\<bar> > 3)
       [0, 0, 0, 0, 0, 0, 0, 0, 0, 0, 110]
     = [False, False, False, False, False, False, False, False, False, False, True]"
  unfolding mean_eleven std_eleven list.map list.inject
  by (intro conjI refl not_flagged [where b = 30] flagged [where c = 33];
      simp add: power2_eq_square eps_def)

lemma anomaly_small: "IsolationForest L = None \<Longrightarrow> anomaly L small_sample (Some [''v'']) = Inr []"
  unfolding small_sample_def
  by (subst anomaly_single_float) (simp_all only: mask_small, simp_all add: upt_rec)

lemma anomaly_wide: "IsolationForest L = None \<Longrightarrow> anomaly L wide_outlier (Some [''v'']) = Inr []"
  unfolding wide_outlier_def
  by (subst anomaly_single_float) (simp_all only: mask_wide, simp_all add: upt_rec)

lemma anomaly_eleven: "IsolationForest L = None \<Longrightarrow> anomaly L eleven_rows (Some []) = Inr [10]"
  unfolding eleven_rows_def
  by (subst anomaly_single_float) (simp_all only: mask_eleven, simp_all add: upt_rec)

lemma anomaly_gap:
  "IsolationForest L = None \<Longrightarrow> anomaly L gap_then_eleven None = Inr [11]"
proof -
  assume iso: "IsolationForest L = None"
  let ?xs = "[0, 0, 0, 0, 0, 0, 0, 0, 0, 0, 110] :: real list"
  let ?df = "\<lparr>index = [0..<12], columns = [(''v'', Float (None # map Some ?xs))]\<rparr>"
  let ?X = "\<lparr>index = [1, 2, 3, 4, 5, 6, 7, 8, 9, 10, 11], columns = [(''v'', Float (map Some ?xs))]\<rparr>"
  have ne0: "Null # map RNum ?xs \<noteq> []" by simp
  have len: "length (Null # map RNum ?xs) = 12" by simp
  have df: "coerce_dataframe L gap_then_eleven = ?df"
    unfolding gap_then_eleven_def coerce_rows_of [OF ne0] len
    by (simp add: infer_column_def)
  have sel: "selected_columns ?df None = [''v'']"
    by (simp add: selected_columns_def number_columns_def)
  have get: "getitem ?df [''v''] = Inr ?df" by (simp add: getitem_def)
  have ne: "\<not> empty ?df" by (simp add: empty_def)
  have drop: "dropna ?df = ?X" by (simp add: dropna_def upt_rec)
  have neX: "\<not> empty ?X" by (simp add: empty_def)
  have isoX: "isolation_forest L ?X = Inl RuntimeError"
    by (simp add: isolation_forest_def iso)
  have z: "zscore_fallback ?X = Inr [11]"
    by (subst zscore_fallback_single [where xs = ?xs]) (simp_all only: mask_eleven, simp_all)
  show ?thesis
    by (simp only: anomaly_def df Let_def sel get drop ne neX isoX z
        sum.case if_False list.distinct)
qed

text \<open>A row with a gap ahead of the outlier: the outlier is reported at its input position 11,
  not at its position 10 in the subset.\<close>

theorem anomaly_ids_original_witness:
  "anomaly bare gap_then_eleven None = Inr [11] \<and> 11 < length gap_then_eleven \<and>
   (\<exists>col. map_of (columns (coerce_dataframe bare gap_then_eleven)) ''v'' = Some col
          \<and> 11 < length (isna col) \<and> \<not> isna col ! 11)"
proof -
  have a: "anomaly bare gap_then_eleven None = Inr [11]"
    by (rule anomaly_gap) (simp add: bare_def)
  have ne0: "Null # map RNum [0, 0, 0, 0, 0, 0, 0, 0, 0, 0, 110] \<noteq> []" by simp
  have sel: "selected_columns (coerce_dataframe bare gap_then_eleven) None = [''v'']"
    unfolding gap_then_eleven_def coerce_rows_of [OF ne0]
    by (simp add: infer_column_def selected_columns_def number_columns_def)
  have len: "length gap_then_eleven = 12"
    by (simp add: gap_then_eleven_def rows_of_def)
  from anomaly_ids_original [OF a, of 11] sel a len show ?thesis by simp
qed

subsection \<open>Empty table, empty selection\<close>

lemma anomaly_empty_frame: "empty (coerce_dataframe L data) \<Longrightarrow> anomaly L data nc = Inr []"
  by (simp add: anomaly_def)

lemma anomaly_no_selection:
  "selected_columns (coerce_dataframe L data) nc = [] \<Longrightarrow> anomaly L data nc = Inr []"
  by (simp add: anomaly_def Let_def)

lemma selected_columns_empty_list: "selected_columns df (Some []) = selected_columns df None"
  by (simp add: selected_columns_def)

text \<open>
  C3, as the code has it. detect-anomalies returns the empty result when the inferred table
  is empty and when the selection in force is empty. The selection in force is the caller's
  list when that list is non-empty, and the numeric columns of the table otherwise: an
  explicitly empty list is the same request as no list, so it gives the empty result only
  when the table has no numeric column.
\<close>

theorem anomaly_empty_selection:
  "(empty (coerce_dataframe L data) \<longrightarrow> anomaly L data nc = Inr [])
   \<and> (selected_columns (coerce_dataframe L data) nc = [] \<longrightarrow> anomaly L data nc = Inr [])
   \<and> (number_columns (coerce_dataframe L data) = [] \<and> (nc = None \<or> nc = Some [])
        \<longrightarrow> anomaly L data nc = Inr [])
   \<and> anomaly L data (Some []) = anomaly L data None"
proof (intro conjI impI)
  show "anomaly L data nc = Inr []" if "empty (coerce_dataframe L data)"
    using that by (rule anomaly_empty_frame)
  show "anomaly L data nc = Inr []" if "selected_columns (coerce_dataframe L data) nc = []"
    using that by (rule anomaly_no_selection)
  show "anomaly L data nc = Inr []"
    if "number_columns (coerce_dataframe L data) = [] \<and> (nc = None \<or> nc = Some [])"
  proof -
    from that have "selected_columns (coerce_dataframe L data) nc = []"
      by (auto simp: selected_columns_def)
    then show ?thesis by (rule anomaly_no_selection)
  qed
  show "anomaly L data (Some []) = anomaly L data None"
    by (simp add: anomaly_def Let_def selected_columns_empty_list)
qed

theorem anomaly_empty_selection_witness:
  "empty (coerce_dataframe bare []) \<and> anomaly bare [] None = Inr []
   \<and> number_columns (coerce_dataframe bare one_flag) = []
   \<and> anomaly bare one_flag (Some []) = Inr []"
proof -
  have e: "empty (coerce_dataframe bare [])" by (simp add: coerce_empty empty_def)
  have ne0: "[RBool True] \<noteq> []" by simp
  have n: "number_columns (coerce_dataframe bare one_flag) = []"
    unfolding one_flag_def coerce_rows_of [OF ne0]
    by (simp add: infer_column_def number_columns_def)
  from anomaly_empty_selection [of bare "[]" None] e
  have "anomaly bare [] None = Inr []" by blast
  moreover from anomaly_empty_selection [of bare one_flag "Some []"] n
  have "anomaly bare one_flag (Some []) = Inr []" by blast
  ultimately show ?thesis using e n by simp
qed

text \<open>Eleven rows of one numeric column and an explicitly empty selection list: row 10 is
  reported.\<close>

theorem explicit_empty_list_counterexample:
  "anomaly bare eleven_rows (Some []) = Inr [10]"
  by (rule anomaly_eleven) (simp add: bare_def)

subsection \<open>The z-score rule\<close>

lemma any_axis1_length: "\<forall>z\<in>set zs. length z = n \<Longrightarrow> length (any_axis1 n zs) = n"
  by (induction zs) simp_all

lemma any_axis1_nth:
  "\<forall>z\<in>set zs. length z = n \<Longrightarrow> p < n \<Longrightarrow> any_axis1 n zs ! p \<longleftrightarrow> (\<exists>z\<in>set zs. \<bar>z ! p\<bar> > 3)"
  by (induction zs) (simp_all add: any_axis1_length)

lemma zscore_nth: "p < length c \<Longrightarrow> zscore c ! p = (c ! p - mean c) / (std0 c + eps)"
  by (simp add: zscore_def)

lemma zscore_mask:
  assumes "\<forall>c\<in>set cs. length c = n"
  shows "any_axis1 n (map zscore cs)
           = map (\<lambda>p. \<exists>c\<in>set cs. \<bar>(c ! p - mean c) / (std0 c + eps)\<bar> > 3) [0..<n]"
proof (rule nth_equalityI)
  have l: "\<forall>z\<in>set (map zscore cs). length z = n"
    using assms by (simp add: zscore_def)
  show "length (any_axis1 n (map zscore cs))
          = length (map (\<lambda>p. \<exists>c\<in>set cs. \<bar>(c ! p - mean c) / (std0 c + eps)\<bar> > 3) [0..<n])"
    using any_axis1_length [OF l] by simp
  fix p assume "p < length (any_axis1 n (map zscore cs))"
  then have p: "p < n" using any_axis1_length [OF l] by simp
  have "any_axis1 n (map zscore cs) ! p \<longleftrightarrow> (\<exists>c\<in>set cs. \<bar>zscore c ! p\<bar> > 3)"
    using any_axis1_nth [OF l p] by simp
  also have "\<dots> \<longleftrightarrow> (\<exists>c\<in>set cs. \<bar>(c ! p - mean c) / (std0 c + eps)\<bar> > 3)"
    using assms p by (auto simp: zscore_nth)
  finally show "any_axis1 n (map zscore cs) ! p
      = map (\<lambda>p. \<exists>c\<in>set cs. \<bar>(c ! p - mean c) / (std0 c + eps)\<bar> > 3) [0..<n] ! p"
    using p by simp
qed

text \<open>
  C7, as the code has it. In the z-score fallback the row at position \<open>p\<close> of the working
  subset is reported exactly when some selected column \<open>c\<close> has
  \<open>|(c[p] - mean c) / (std c + 1e-9)| > 3\<close>, with the population standard deviation. On the
  rows with values 1, 2, 3, 100 nothing is reported, and on the rows with values
  1, 2, 3, 2, 1, 2, 3, 500 nothing is reported either: the score of 500 is about 2.65.
\<close>

theorem zscore_rule:
  "(\<forall>X cs. collect numbers (map snd (columns X)) = Inr cs
          \<and> (\<forall>c\<in>set cs. length c = length (index X))
      \<longrightarrow> zscore_fallback X =
            Inr (select (map (\<lambda>p. \<exists>c\<in>set cs. \<bar>(c ! p - mean c) / (std0 c + eps)\<bar> > 3)
                             [0..<length (index X)]) (index X)))
   \<and> (IsolationForest L = None \<longrightarrow>
        anomaly L small_sample (Some [''v'']) = Inr []
        \<and> anomaly L wide_outlier (Some [''v'']) = Inr [])"
proof (intro conjI allI impI)
  fix X :: DataFrame and cs
  assume a: "collect numbers (map snd (columns X)) = Inr cs
             \<and> (\<forall>c\<in>set cs. length c = length (index X))"
  then show "zscore_fallback X =
     Inr (select (map (\<lambda>p. \<exists>c\<in>set cs. \<bar>(c ! p - mean c) / (std0 c + eps)\<bar> > 3)
                      [0..<length (index X)]) (index X))"
    by (simp add: zscore_fallback_def zscore_mask)
next
  assume "IsolationForest L = None"
  then show "anomaly L small_sample (Some [''v'']) = Inr []" by (rule anomaly_small)
next
  assume "IsolationForest L = None"
  then show "anomaly L wide_outlier (Some [''v'']) = Inr []" by (rule anomaly_wide)
qed

lemma mask_by_position:
  "map (\<lambda>p. \<exists>c\<in>set [xs]. Q (c ! p) c) [0..<length xs] = map (\<lambda>x. Q x xs) xs"
  by (rule nth_equalityI) simp_all

theorem zscore_rule_witness:
  "collect numbers (map snd (columns eleven_frame)) = Inr [[0, 0, 0, 0, 0, 0, 0, 0, 0, 0, 110]]
   \<and> zscore_fallback eleven_frame = Inr [10]
   \<and> IsolationForest bare = None
   \<and> anomaly bare small_sample (Some [''v'']) = Inr []
   \<and> anomaly bare wide_outlier (Some [''v'']) = Inr []"
proof -
  let ?xs = "[0, 0, 0, 0, 0, 0, 0, 0, 0, 0, 110] :: real list"
  have c: "collect numbers (map snd (columns eleven_frame)) = Inr [?xs]"
    by (simp add: eleven_frame_def)
  have l: "\<forall>c\<in>set [?xs]. length c = length (index eleven_frame)"
    by (simp add: eleven_frame_def)
  have n: "length (index eleven_frame) = length ?xs" by (simp add: eleven_frame_def)
  have b: "IsolationForest bare = None" by (simp add: bare_def)
  from zscore_rule [of bare] c l
  have "zscore_fallback eleven_frame =
     Inr (select (map (\<lambda>p. \<exists>c\<in>set [?xs]. \<bar>(c ! p - mean c) / (std0 c + eps)\<bar> > 3)
                      [0..<length (index eleven_frame)]) (index eleven_frame))"
    by blast
  then have "zscore_fallback eleven_frame = Inr [10]"
    unfolding n mask_by_position [where Q = "\<lambda>x c. \<bar>(x - mean c) / (std0 c + eps)\<bar> > 3"] mask_eleven
    by (simp add: eleven_frame_def)
  moreover from zscore_rule [of bare] b
  have "anomaly bare small_sample (Some [''v'']) = Inr []
        \<and> anomaly bare wide_outlier (Some [''v'']) = Inr []" by blast
  ultimately show ?thesis using c b by simp
qed

text \<open>The row holding 500 is not flagged.\<close>

theorem wide_outlier_counterexample:
  "anomaly bare wide_outlier (Some [''v'']) = Inr []"
  by (rule anomaly_wide) (simp add: bare_def)

subsection \<open>Schema inference\<close>















subsection \<open>The trend step\<close>





subsection \<open>Insights on two proportional columns\<close>

lemma coerce_x_rows: "coerce_dataframe L x_rows = x_frame"
  by (simp add: coerce_dataframe_def DataFrame_of_def x_rows_def x_frame_def first_seen_def
      get_raw_def infer_column_def upt_rec)

lemma sqrt_square: "0 \<le> a \<Longrightarrow> sqrt (a * a) = a"
  by simp

lemma sqrt_25: "sqrt 25 = 5"
  using sqrt_square [of 5] by simp

lemma sqrt_100: "sqrt 100 = 10"
  using sqrt_square [of 10] by simp

lemma sqrt_400: "sqrt 400 = 20"
  using sqrt_square [of 20] by simp

lemma mean_x: "mean [1, 2, 3, 4] = 5 / 2"
  by (simp add: mean_def)

lemma mean_x2: "mean [2, 4, 6, 8] = 5"
  by (simp add: mean_def)

lemma pearson_x_x:
  "pearson [Some 1, Some 2, Some 3, Some 4] [Some 1, Some 2, Some 3, Some 4] = Some 1"
  by (simp add: pearson_def mean_x power2_eq_square sqrt_25)

lemma pearson_x_x2:
  "pearson [Some 1, Some 2, Some 3, Some 4] [Some 2, Some 4, Some 6, Some 8] = Some 1"
  by (simp add: pearson_def mean_x mean_x2 power2_eq_square sqrt_100)

lemma pearson_x2_x:
  "pearson [Some 2, Some 4, Some 6, Some 8] [Some 1, Some 2, Some 3, Some 4] = Some 1"
  by (simp add: pearson_def mean_x mean_x2 power2_eq_square sqrt_100)

lemma pearson_x2_x2:
  "pearson [Some 2, Some 4, Some 6, Some 8] [Some 2, Some 4, Some 6, Some 8] = Some 1"
  by (simp add: pearson_def mean_x2 power2_eq_square sqrt_400)

lemma corr_pairs_x: "corr_pairs x_frame [''x'', ''x2''] = []"
  by (simp add: corr_pairs_def x_frame_def float_values_def
      pearson_x_x pearson_x_x2 pearson_x2_x pearson_x2_x2)

lemma std_x: "std0 [1, 2, 3, 4] = sqrt (5 / 4)"
  by (simp add: std0_def mean_x power2_eq_square)

lemma std_x2: "std0 [2, 4, 6, 8] = sqrt 5"
  by (simp add: std0_def mean_x2 power2_eq_square)

lemma summary_x: "summary x_frame ''x'' = [Summary ''x'' (5 / 2) (5 / 2) (sqrt (5 / 4)) 1 4]"
  by (simp add: summary_def x_frame_def float_values_def present_def mean_x std_x
      median_def minimum_def maximum_def Let_def)

lemma summary_x2: "summary x_frame ''x2'' = [Summary ''x2'' 5 5 (sqrt 5) 2 8]"
  by (simp add: summary_def x_frame_def float_values_def present_def mean_x2 std_x2
      median_def minimum_def maximum_def Let_def)

lemma outliers_x: "iqr_outliers x_frame ''x'' = []" "iqr_outliers x_frame ''x2'' = []"
  by (simp_all add: iqr_outliers_def x_frame_def float_values_def present_def)

lemma columns_x:
  "number_columns x_frame = [''x'', ''x2'']" "datetime_columns x_frame = []" "\<not> empty x_frame"
  by (simp_all add: number_columns_def datetime_columns_def x_frame_def empty_def)

lemma insights_x:
  "insights L x_rows =
     \<lparr>r_insights = [Summary ''x'' (5 / 2) (5 / 2) (sqrt (5 / 4)) 1 4,
                     Summary ''x2'' 5 5 (sqrt 5) 2 8],
      r_row_count = Some 4, r_column_count = Some 2\<rparr>"
proof -
  have t: "trend x_frame [] [''x'', ''x2''] = []" by (simp add: trend_def)
  have c: "correlation x_frame [''x'', ''x2''] = []" by (simp add: correlation_def corr_pairs_x)
  have l: "length (index x_frame) = 4" "length (columns x_frame) = 2" by (simp_all add: x_frame_def)
  show ?thesis
    unfolding insights_def coerce_x_rows Let_def columns_x
    by (simp add: columns_x summary_x summary_x2 outliers_x t c l)
qed

text \<open>
  C2, as the code has it. On the four rows with \<open>x = 1, 2, 3, 4\<close> and \<open>x2 = 2 x\<close>
  generate-insights reports the summary statistics of both columns and nothing else: the
  correlation of \<open>x\<close> and \<open>x2\<close> is 1, every entry of the correlation matrix is at least
  0.999 and is filtered out, so no correlation insight is reported.
\<close>

theorem perfect_correlation_filtered:
  "insights L x_rows =
     \<lparr>r_insights = [Summary ''x'' (5 / 2) (5 / 2) (sqrt (5 / 4)) 1 4,
                     Summary ''x2'' 5 5 (sqrt 5) 2 8],
      r_row_count = Some 4, r_column_count = Some 2\<rparr>
   \<and> pearson (float_values (coerce_dataframe L x_rows) ''x'')
              (float_values (coerce_dataframe L x_rows) ''x2'') = Some 1
   \<and> corr_pairs (coerce_dataframe L x_rows) (number_columns (coerce_dataframe L x_rows)) = []"
  by (simp add: insights_x coerce_x_rows columns_x corr_pairs_x)
     (simp add: x_frame_def float_values_def pearson_x_x2)

text \<open>The insight list holds the two summaries only.\<close>

theorem no_correlation_insight_counterexample:
  "r_insights (insights bare x_rows) =
     [Summary ''x'' (5 / 2) (5 / 2) (sqrt (5 / 4)) 1 4, Summary ''x2'' 5 5 (sqrt 5) 2 8]
   \<and> correlation (coerce_dataframe bare x_rows) (number_columns (coerce_dataframe bare x_rows)) = []"
  by (simp add: insights_x coerce_x_rows columns_x correlation_def corr_pairs_x)

subsection \<open>The moving-average fallback\<close>

lemma window_clamp: "window_of n = clamp (n div 4) 2 5"
  by (simp add: window_of_def clamp_def)

lemma window_bounds: "2 \<le> window_of n" "window_of n \<le> 5"
  by (simp_all add: window_of_def)

lemma present_append: "present (xs @ ys) = present xs @ present ys"
  by (simp add: present_def)

lemma present_all_None: "\<forall>x\<in>set xs. f x = None \<Longrightarrow> present (map f xs) = []"
  by (induction xs) (simp_all add: present_def)

lemma present_all_Some: "\<forall>x\<in>set xs. f x = Some (g x) \<Longrightarrow> present (map f xs) = map g xs"
  by (induction xs) (simp_all add: present_def)

lemma present_map_Some: "present (map Some xs) = xs"
  by (induction xs) (simp_all add: present_def)

lemma window_complete:
  "take w (drop k (map Some xs)) = map Some (take w (drop k xs))"
  by (simp add: take_map drop_map)

lemma rolling_mean_complete:
  assumes "1 \<le> w"
  shows "present (rolling_mean w (map Some xs))
           = map (\<lambda>i. mean (take w (drop (i + 1 - w) xs))) [w - 1..<length xs]"
proof -
  define f where "f = (\<lambda>i. if i + 1 < w then None
               else let win = take w (drop (i + 1 - w) (map Some xs))
                    in if list_all (\<lambda>v. v \<noteq> None) win then Some (mean (present win)) else None)"
  define k where "k = min (w - 1) (length xs)"
  have split: "[0..<length xs] = [0..<k] @ [k..<length xs]"
    unfolding k_def by (metis le_add_diff_inverse min.cobounded2 upt_add_eq_append zero_le)
  have a: "present (map f [0..<k]) = []"
    by (rule present_all_None) (auto simp: f_def k_def)
  have b: "present (map f [k..<length xs])
             = map (\<lambda>i. mean (take w (drop (i + 1 - w) xs))) [k..<length xs]"
    by (rule present_all_Some)
       (auto simp: f_def k_def window_complete present_map_Some list_all_iff Let_def)
  have c: "[k..<length xs] = [w - 1..<length xs]"
    unfolding k_def by (cases "w - 1 \<le> length xs") (simp_all add: min_def)
  have "rolling_mean w (map Some xs) = map f [0..<length xs]"
    by (simp add: rolling_mean_def f_def)
  also have "\<dots> = map f [0..<k] @ map f [k..<length xs]"
    by (subst split) simp
  finally have "present (rolling_mean w (map Some xs))
                  = present (map f [0..<k]) @ present (map f [k..<length xs])"
    by (simp only: present_append)
  then have "present (rolling_mean w (map Some xs))
               = map (\<lambda>i. mean (take w (drop (i + 1 - w) xs))) [k..<length xs]"
    by (simp only: a b append_Nil)
  then show ?thesis by (simp only: c)
qed

lemma last_average:
  assumes "1 \<le> w" "w \<le> length xs"
  shows "present (rolling_mean w (map Some xs)) \<noteq> []"
    and "last (present (rolling_mean w (map Some xs))) = mean (drop (length xs - w) xs)"
proof -
  have lt: "w - 1 < length xs" using assms by linarith
  then have ne: "[w - 1..<length xs] \<noteq> []" by auto
  then show "present (rolling_mean w (map Some xs)) \<noteq> []"
    by (simp add: rolling_mean_complete [OF assms(1)])
  have "last (map (\<lambda>i. mean (take w (drop (i + 1 - w) xs))) [w - 1..<length xs])
          = mean (take w (drop (last [w - 1..<length xs] + 1 - w) xs))"
    using ne by (rule last_map)
  then have "last (present (rolling_mean w (map Some xs)))
          = mean (take w (drop (last [w - 1..<length xs] + 1 - w) xs))"
    by (simp only: rolling_mean_complete [OF assms(1)])
  also have "last [w - 1..<length xs] = length xs - 1" using lt by simp
  also have "length xs - 1 + 1 - w = length xs - w" using assms by linarith
  also have "take w (drop (length xs - w) xs) = drop (length xs - w) xs" using assms by simp
  finally show "last (present (rolling_mean w (map Some xs))) = mean (drop (length xs - w) xs)" .
qed

lemma no_average: "1 \<le> w \<Longrightarrow> length xs < w \<Longrightarrow> present (rolling_mean w (map Some xs)) = []"
  by (simp add: rolling_mean_complete)

lemma moving_average_float:
  "ys \<noteq> [] \<Longrightarrow> moving_average (Float ys) =
     Inr (replicate 12 (if present (rolling_mean (window_of (length ys)) ys) \<noteq> []
                        then Some (last (present (rolling_mean (window_of (length ys)) ys)))
                        else last ys))"
  by (simp add: moving_average_def Let_def)

lemma moving_average_complete:
  assumes "xs \<noteq> []"
  shows "moving_average (Float (map Some xs)) =
     Inr (replicate 12 (Some (if window_of (length xs) \<le> length xs
                              then mean (drop (length xs - window_of (length xs)) xs)
                              else last xs)))"
proof -
  have w1: "1 \<le> window_of (length xs)" using window_bounds(1) [of "length xs"] by simp
  have ne: "map Some xs \<noteq> []" using assms by simp
  show ?thesis
  proof (cases "window_of (length xs) \<le> length xs")
    case True
    from last_average [OF w1 True] True show ?thesis
      by (simp add: moving_average_float [OF ne])
  next
    case False
    then have "length xs < window_of (length xs)" by simp
    from no_average [OF w1 this] False assms show ?thesis
      by (simp add: moving_average_float [OF ne] last_map)
  qed
qed


lemma arima_unavailable: "sm L = None \<or> col_len ts < 8 \<Longrightarrow> arima L ts = Inl RuntimeError"
  by (auto simp: arima_def split: option.splits)

lemma arima_raises:
  "sm L = Some f \<Longrightarrow> astype_float ts = Inr xs \<Longrightarrow> f xs = Inl e \<Longrightarrow> \<exists>e'. arima L ts = Inl e'"
  by (simp add: arima_def)

lemma fallback_taken: "arima L ts = Inl e \<Longrightarrow> forecast_values L ts = moving_average ts"
  by (simp add: forecast_values_def)

text \<open>
  C6. The forecast is the moving-average projection whenever statsmodels is missing,
  whenever the series has fewer than 8 points (whatever the library would do), and whenever
  the fit or the forecast raises. The window is the point count divided by 4, clamped to
  2..5 (which is 2 below two points). The projection is twelve copies of the last
  moving-average value, or of the last raw observation when the moving average has no
  value; for a series without gaps that is the mean of the last \<open>window\<close> observations when
  there are that many, and the last observation otherwise.
\<close>

theorem fallback_rule:
  "(sm L = None \<longrightarrow> forecast_values L ts = moving_average ts)
   \<and> (col_len ts < 8 \<longrightarrow> forecast_values L ts = moving_average ts)
   \<and> (\<forall>f xs e. sm L = Some f \<and> astype_float ts = Inr xs \<and> f xs = Inl e
         \<longrightarrow> forecast_values L ts = moving_average ts)
   \<and> window_of n = clamp (n div 4) 2 5
   \<and> (ys \<noteq> [] \<longrightarrow> moving_average (Float ys) =
         Inr (replicate 12 (if present (rolling_mean (window_of (length ys)) ys) \<noteq> []
                            then Some (last (present (rolling_mean (window_of (length ys)) ys)))
                            else last ys)))
   \<and> (xs \<noteq> [] \<longrightarrow> moving_average (Float (map Some xs)) =
         Inr (replicate 12 (Some (if window_of (length xs) \<le> length xs
                                  then mean (drop (length xs - window_of (length xs)) xs)
                                  else last xs))))"
proof (intro conjI impI allI)
  show "forecast_values L ts = moving_average ts" if "sm L = None"
    using that arima_unavailable [of L ts] fallback_taken by blast
  show "forecast_values L ts = moving_average ts" if "col_len ts < 8"
    using that arima_unavailable [of L ts] fallback_taken by blast
  show "forecast_values L ts = moving_average ts"
    if "sm L = Some f \<and> astype_float ts = Inr zs \<and> f zs = Inl e" for f zs e
    using that arima_raises [of L f ts zs e] fallback_taken by blast
  show "window_of n = clamp (n div 4) 2 5" by (rule window_clamp)
  show "moving_average (Float ys) =
         Inr (replicate 12 (if present (rolling_mean (window_of (length ys)) ys) \<noteq> []
                            then Some (last (present (rolling_mean (window_of (length ys)) ys)))
                            else last ys))" if "ys \<noteq> []"
    using that by (rule moving_average_float)
  show "moving_average (Float (map Some xs)) =
         Inr (replicate 12 (Some (if window_of (length xs) \<le> length xs
                                  then mean (drop (length xs - window_of (length xs)) xs)
                                  else last xs)))" if "xs \<noteq> []"
    using that by (rule moving_average_complete)
qed

theorem fallback_rule_witness:
  "forecast_values bare (Float (map Some [1, 2, 3, 4, 5, 6, 7, 8, 9])) = Inr (replicate 12 (Some (17 / 2)))
   \<and> forecast_values with_arima (Float (map Some [5, 7])) = Inr (replicate 12 (Some 6))
   \<and> forecast_values failing_arima (Float (map Some [1, 2, 3, 4, 5, 6, 7, 8, 9]))
       = Inr (replicate 12 (Some (17 / 2)))
   \<and> forecast_values bare (Float (map Some [7])) = Inr (replicate 12 (Some 7))
   \<and> window_of 9 = 2 \<and> window_of 40 = 5"
proof -
  let ?nine = "[1, 2, 3, 4, 5, 6, 7, 8, 9] :: real list"
  have m9: "moving_average (Float (map Some ?nine)) = Inr (replicate 12 (Some (17 / 2)))"
    using fallback_rule [of bare "Float []" 0 "[]" ?nine]
    by (simp add: window_of_def mean_def)
  have m2: "moving_average (Float (map Some [5, 7])) = Inr (replicate 12 (Some 6))"
    using fallback_rule [of bare "Float []" 0 "[]" "[5, 7]"]
    by (simp add: window_of_def mean_def)
  have m1: "moving_average (Float (map Some [7])) = Inr (replicate 12 (Some 7))"
    using fallback_rule [of bare "Float []" 0 "[]" "[7]"]
    by (simp add: window_of_def)
  have a: "forecast_values bare (Float (map Some ?nine)) = moving_average (Float (map Some ?nine))"
    using fallback_rule [of bare "Float (map Some ?nine)" 0 "[]" "[]"]
    by (simp add: bare_def)
  have b: "forecast_values with_arima (Float (map Some [5, 7])) = moving_average (Float (map Some [5, 7]))"
    using fallback_rule [of with_arima "Float (map Some [5, 7])" 0 "[]" "[]"]
    by simp
  have "sm failing_arima = Some (\<lambda>xs. Inl ValueError)
        \<and> astype_float (Float (map Some ?nine)) = Inr (map Some ?nine)
        \<and> (\<lambda>xs. Inl ValueError) (map Some ?nine) = (Inl ValueError :: error + real option list)"
    by (simp add: failing_arima_def bare_def)
  then have c: "forecast_values failing_arima (Float (map Some ?nine))
                  = moving_average (Float (map Some ?nine))"
    using fallback_rule [of failing_arima "Float (map Some ?nine)" 0 "[]" "[]"] by blast
  have d: "forecast_values bare (Float (map Some [7])) = moving_average (Float (map Some [7]))"
    using fallback_rule [of bare "Float (map Some [7])" 0 "[]" "[]"]
    by simp
  have w: "window_of 9 = 2" "window_of 40 = 5"
    using fallback_rule [of bare "Float []" 9 "[]" "[]"] fallback_rule [of bare "Float []" 40 "[]" "[]"]
    by (simp_all add: clamp_def)
  show ?thesis
    by (simp only: a b c d m9 m2 m1 w simp_thms)
qed

subsection \<open>Twelve forecast values\<close>





lemma select_keep_float:
  "length ys = n \<Longrightarrow> select (keep_mask n [Float ys]) ys = filter (\<lambda>v. v \<noteq> None) ys"
  by (induction ys arbitrary: n) auto

lemma index_series_float:
  assumes "map_of (columns df) target = Some (Float ys)" and "length (index df) = length ys"
  shows "index_series df target = Inr (Float (filter (\<lambda>v. v \<noteq> None) ys))"
proof -
  have "getitem df [target] = Inr \<lparr>index = index df, columns = [(target, Float ys)]\<rparr>"
    using assms(1) by (simp add: getitem_def)
  then show ?thesis
    using assms(2) by (simp add: index_series_def dropna_def select_keep_float del: keep_mask.simps)
qed








subsection \<open>Exceptions that leave the operations\<close>

lemma forecast_all_missing: "forecast L (rows_of ''y'' [Null]) None ''y'' = Inl IndexError"
proof -
  let ?df = "\<lparr>index = [0], columns = [(''y'', Float [None])]\<rparr>"
  have ne0: "[Null] \<noteq> []" by simp
  have df: "coerce_dataframe L (rows_of ''y'' [Null]) = ?df"
    unfolding coerce_rows_of [OF ne0] by (simp add: infer_column_def to_numeric_def)
  have ne: "\<not> empty ?df" by (simp add: empty_def)
  have tin: "''y'' \<in> set (column_names ?df)" by (simp add: column_names_def)
  have fd: "first_datetime ?df = None" by (simp add: first_datetime_def datetime_columns_def)
  have ser: "index_series ?df ''y'' = Inr (Float [])"
    using index_series_float [of ?df "''y''" "[None]"] by simp
  have ar: "arima L (Float []) = Inl RuntimeError" by (rule arima_unavailable) simp
  have ma: "moving_average (Float []) = Inl IndexError"
    by (simp add: moving_average_def rolling_mean_def present_def)
  have fv: "forecast_values L (Float []) = Inl IndexError"
    by (simp add: forecast_values_def ar ma)
  show ?thesis
    unfolding forecast_def df Let_def
    by (simp add: ne tin fd ser fv)
qed

lemma anomaly_unknown_column: "anomaly L (rows_of ''a'' [RNum 1]) (Some [''b'']) = Inl KeyError"
proof -
  have ne0: "[RNum 1] \<noteq> []" by simp
  show ?thesis
    unfolding anomaly_def coerce_rows_of [OF ne0]
    by (simp add: infer_column_def empty_def selected_columns_def getitem_def)
qed

lemma forecast_two_days: "forecast dated two_days None ''y'' = Inl ValueError"
proof -
  let ?df = "\<lparr>index = [0, Suc 0],
              columns = [(''d'', Datetime [Some 1704067200000000000, Some 1704153600000000000]),
                         (''y'', Float [Some 1, Some 2])]\<rparr>"
  have df: "coerce_dataframe dated two_days = ?df"
    by (simp add: coerce_dataframe_def DataFrame_of_def two_days_def first_seen_def get_raw_def
        infer_column_def to_numeric_def to_datetime_def dated_def bare_def upt_rec)
  have ne: "\<not> empty ?df" by (simp add: empty_def)
  have tin: "''y'' \<in> set (column_names ?df)" "''d'' \<in> set (column_names ?df)"
    by (simp_all add: column_names_def)
  have fd: "first_datetime ?df = Some ''d''" by (simp add: first_datetime_def datetime_columns_def)
  have ts: "time_series dated ?df ''d'' ''y'' = Inl ValueError"
    by (simp add: time_series_def getitem_def dropna_def present_def)
  show ?thesis
    unfolding forecast_def df Let_def
    by (simp add: ne tin fd ts)
qed

text \<open>
  C1 does not hold of the code. A forecast on a target column that holds only missing values
  ends in the \<^verbatim>\<open>except\<close> block with \<^verbatim>\<open>ts.iloc[-1]\<close> on an empty series, an IndexError;
  a forecast over a time axis of two timestamps ends in \<^verbatim>\<open>pd.infer_freq\<close>, a ValueError
  raised before the \<^verbatim>\<open>try\<close> block; an anomaly request that names a column the table
  does not have ends in \<^verbatim>\<open>df[numeric_cols]\<close>, a KeyError, also before the \<^verbatim>\<open>try\<close>
  block. None of the three is caught.
\<close>

theorem exceptions_escape:
  "forecast L (rows_of ''y'' [Null]) None ''y'' = Inl IndexError
   \<and> forecast dated two_days None ''y'' = Inl ValueError
   \<and> anomaly L (rows_of ''a'' [RNum 1]) (Some [''b'']) = Inl KeyError"
  by (simp only: forecast_all_missing forecast_two_days anomaly_unknown_column simp_thms)

end
